theory Spec2Isabelle
  imports Main "HOL-Library.Sublist"
begin

section \<open>JavaScript strings\<close>

text \<open>
  A JavaScript string is a sequence of code units; it is modelled as a \<open>string\<close>.
  Every pattern the program searches for is ASCII.
\<close>

text \<open>
  \<open>String.prototype.includes(searchString)\<close>: whether \<open>searchString\<close> occurs in the
  string as a contiguous run.
\<close>

fun String_includes :: "string \<Rightarrow> string \<Rightarrow> bool" where
  "String_includes [] searchString = (searchString = [])"
| "String_includes (c # cs) searchString =
     (prefix searchString (c # cs) \<or> String_includes cs searchString)"

text \<open>
  \<open>StringIndexOf(string, searchString, 0)\<close>: the least position at which
  \<open>searchString\<close> occurs, \<open>None\<close> when it does not occur.
\<close>

fun StringIndexOf :: "string \<Rightarrow> string \<Rightarrow> nat option" where
  "StringIndexOf [] searchString = (if searchString = [] then Some 0 else None)"
| "StringIndexOf (c # cs) searchString =
     (if prefix searchString (c # cs) then Some 0
      else map_option Suc (StringIndexOf cs searchString))"

text \<open>
  \<open>GetSubstitution(matched, str, position, captures, namedCaptures, replacementTemplate)\<close>
  of ECMAScript, for a string pattern: there are no captures and no named captures.
  The replacement template is read left to right; \<open>$$\<close> stands for one dollar sign,
  \<open>$&\<close> for the matched text, \<open>$`\<close> (dollar, character 0x60) for the part of \<open>str\<close>
  before the match and \<open>$'\<close> (dollar, character 0x27) for the part after it. With no
  captures, \<open>$\<close> followed by digits or by \<open><\<close> is copied as it stands, like every
  other character.
\<close>

fun GetSubstitution :: "string \<Rightarrow> string \<Rightarrow> nat \<Rightarrow> string \<Rightarrow> string" where
  "GetSubstitution matched str position [] = []"
| "GetSubstitution matched str position [c] = [c]"
| "GetSubstitution matched str position (c # d # rest) =
     (if c = CHR ''$'' \<and> d = CHR ''$'' then
        CHR ''$'' # GetSubstitution matched str position rest
      else if c = CHR ''$'' \<and> d = CHR 0x60 then
        take position str @ GetSubstitution matched str position rest
      else if c = CHR ''$'' \<and> d = CHR ''&'' then
        matched @ GetSubstitution matched str position rest
      else if c = CHR ''$'' \<and> d = CHR 0x27 then
        drop (min (position + length matched) (length str)) str
          @ GetSubstitution matched str position rest
      else c # GetSubstitution matched str position (d # rest))"

text \<open>
  \<open>String.prototype.replace(searchValue, replaceValue)\<close> with both arguments strings:
  only the first occurrence of \<open>searchValue\<close> is replaced, by the substitution computed
  from \<open>replaceValue\<close>; a string without the pattern is returned unchanged.
\<close>

definition String_replace :: "string \<Rightarrow> string \<Rightarrow> string \<Rightarrow> string" where
  "String_replace str searchValue replaceValue =
     (case StringIndexOf str searchValue of
        None \<Rightarrow> str
      | Some pos \<Rightarrow>
          take pos str
            @ GetSubstitution searchValue str pos replaceValue
            @ drop (pos + length searchValue) str)"

section \<open>Prompt formatter\<close>

text \<open>
  \<open>createPromptFormatter(template)\<close> returns the closure
  \<open>(text, systemPrompt) => template.replace("{system}", systemPrompt).replace("{user}", text)\<close>.
\<close>

definition createPromptFormatter :: "string \<Rightarrow> string \<Rightarrow> string \<Rightarrow> string" where
  "createPromptFormatter template =
     (\<lambda>text systemPrompt.
        String_replace (String_replace template ''{system}'' systemPrompt) ''{user}'' text)"

section \<open>JavaScript containers\<close>

text \<open>
  The operator \<open>a || b\<close> on an optional string: \<open>undefined\<close> and the empty string are
  falsy, so \<open>b\<close> is the result for both.
\<close>

fun or_else :: "string option \<Rightarrow> string \<Rightarrow> string" where
  "or_else None b = b"
| "or_else (Some a) b = (if a = [] then b else a)"

text \<open>
  A \<open>Map\<close> keeps its entries in insertion order. \<open>Map.prototype.set\<close> on a key that is
  present replaces the value and keeps the entry's position; a new key is appended.
\<close>

type_synonym ('k, 'v) js_map = "('k \<times> 'v) list"

fun Map_set :: "'k \<Rightarrow> 'v \<Rightarrow> ('k, 'v) js_map \<Rightarrow> ('k, 'v) js_map" where
  "Map_set k v [] = [(k, v)]"
| "Map_set k v ((k', v') # rest) =
     (if k' = k then (k, v) # rest else (k', v') # Map_set k v rest)"

definition Map_get :: "('k, 'v) js_map \<Rightarrow> 'k \<Rightarrow> 'v option" where
  "Map_get m k = map_of m k"

definition Map_values :: "('k, 'v) js_map \<Rightarrow> 'v list" where
  "Map_values m = map snd m"

text \<open>
  A plain object used as a record from strings to values: its own properties, in the
  order of their creation. Assigning to a property that exists keeps its place. The
  key \<open>__proto__\<close> is the accessor inherited from \<open>Object.prototype\<close>: assigning an
  object to it changes the prototype and creates no own property.
\<close>

type_synonym 'v js_object = "(string \<times> 'v) list"

definition Object_assign_key :: "string \<Rightarrow> 'v \<Rightarrow> 'v js_object \<Rightarrow> 'v js_object" where
  "Object_assign_key k v obj = (if k = ''__proto__'' then obj else Map_set k v obj)"

text \<open>
  Own property keys are enumerated with the array indices first, in ascending numeric
  order, and then the other strings in creation order. An array index is the canonical
  decimal numeral of an integer from 0 to \<open>2^32 - 2\<close>.
\<close>

definition is_digit :: "char \<Rightarrow> bool" where
  "is_digit c = (48 \<le> (of_char c :: nat) \<and> (of_char c :: nat) \<le> 57)"

definition decimal_value :: "string \<Rightarrow> nat" where
  "decimal_value s = foldl (\<lambda>n c. 10 * n + ((of_char c :: nat) - 48)) 0 s"

definition is_array_index :: "string \<Rightarrow> bool" where
  "is_array_index s =
     (s \<noteq> [] \<and> list_all is_digit s \<and> (s = ''0'' \<or> hd s \<noteq> CHR ''0'')
      \<and> decimal_value s \<le> 4294967294)"

definition Object_entries :: "'v js_object \<Rightarrow> (string \<times> 'v) list" where
  "Object_entries obj =
     sort_key (\<lambda>(k, v). decimal_value k) (filter (\<lambda>(k, v). is_array_index k) obj)
       @ filter (\<lambda>(k, v). \<not> is_array_index k) obj"

section \<open>Catalog data\<close>

record ModelDefinition =
  md_id :: string
  md_name :: string
  md_size :: string
  md_sizeBytes :: int
  md_description :: string
  md_fileName :: string
  md_quantization :: string
  md_contextLength :: int
  md_hfRepo :: string
  md_recommended :: "bool option"

record LocalProviderData =
  lpd_id :: string
  lpd_name :: string
  lpd_baseUrl :: string
  lpd_promptTemplate :: string
  lpd_models :: "ModelDefinition list"

record ModelProvider =
  mp_id :: string
  mp_name :: string
  mp_baseUrl :: string
  mp_models :: "ModelDefinition list"
  mp_formatPrompt :: "string \<Rightarrow> string \<Rightarrow> string"
  mp_getDownloadUrl :: "ModelDefinition \<Rightarrow> string"

record CloudModelDefinition =
  cmd_id :: string
  cmd_name :: string
  cmd_description :: string
  cmd_disableThinking :: "bool option"

record CloudProviderData =
  cpd_id :: string
  cpd_name :: string
  cpd_models :: "CloudModelDefinition list"

text \<open>
  The catalog \<open>modelRegistryData.json\<close> is a parameter of everything below. Of its four
  parts, the functions modelled here read the cloud providers and the local providers.
\<close>

record ModelRegistryData =
  cloudProviders :: "CloudProviderData list"
  localProviders :: "LocalProviderData list"

section \<open>Model registry\<close>

text \<open>An element of \<open>getAllModels()\<close>: \<open>ModelDefinition & { providerId: string }\<close>.\<close>

record ModelWithProviderId = ModelDefinition +
  mwp_providerId :: string

text \<open>The registry's state is its private field \<open>providers\<close>.\<close>

type_synonym ModelRegistry = "(string, ModelProvider) js_map"

definition registerProvider :: "ModelProvider \<Rightarrow> ModelRegistry \<Rightarrow> ModelRegistry" where
  "registerProvider provider providers = Map_set (mp_id provider) provider providers"

definition getProvider :: "ModelRegistry \<Rightarrow> string \<Rightarrow> ModelProvider option" where
  "getProvider providers providerId = Map_get providers providerId"

definition getAllProviders :: "ModelRegistry \<Rightarrow> ModelProvider list" where
  "getAllProviders providers = Map_values providers"

text \<open>The spread \<open>{ ...model, providerId: provider.id }\<close>.\<close>

definition withProviderId :: "ModelDefinition \<Rightarrow> string \<Rightarrow> ModelWithProviderId" where
  "withProviderId model pid = ModelDefinition.extend model (ModelWithProviderId.fields pid)"

text \<open>The two nested loops of \<open>getAllModels\<close>, each pushing onto \<open>models\<close>.\<close>

definition getAllModels :: "ModelRegistry \<Rightarrow> ModelWithProviderId list" where
  "getAllModels providers =
     foldl (\<lambda>models provider.
              foldl (\<lambda>models model. models @ [withProviderId model (mp_id provider)])
                models (mp_models provider))
       [] (Map_values providers)"

definition getCloudProviders :: "ModelRegistryData \<Rightarrow> CloudProviderData list" where
  "getCloudProviders modelData = cloudProviders modelData"

text \<open>The provider object that \<open>registerProvidersFromData\<close> builds from one catalog entry.\<close>

definition providerFromData :: "LocalProviderData \<Rightarrow> ModelProvider" where
  "providerFromData providerData =
     \<lparr> mp_id = lpd_id providerData,
       mp_name = lpd_name providerData,
       mp_baseUrl = lpd_baseUrl providerData,
       mp_models = lpd_models providerData,
       mp_formatPrompt = createPromptFormatter (lpd_promptTemplate providerData),
       mp_getDownloadUrl =
         (\<lambda>model. lpd_baseUrl providerData @ ''/'' @ md_hfRepo model
                    @ ''/resolve/main/'' @ md_fileName model) \<rparr>"

definition registerProvidersFromData :: "ModelRegistryData \<Rightarrow> ModelRegistry \<Rightarrow> ModelRegistry" where
  "registerProvidersFromData modelData providers =
     foldl (\<lambda>providers providerData. registerProvider (providerFromData providerData) providers)
       providers (localProviders modelData)"

text \<open>The constructor: an empty \<open>Map\<close>, then the providers of the catalog.\<close>

definition modelRegistry :: "ModelRegistryData \<Rightarrow> ModelRegistry" where
  "modelRegistry modelData = registerProvidersFromData modelData []"

section \<open>Reasoning providers\<close>

record ReasoningModel =
  rm_value :: string
  rm_label :: string
  rm_description :: string

record ReasoningProvider =
  rp_name :: string
  rp_models :: "ReasoningModel list"

record ReasoningModelWithProvider = ReasoningModel +
  rmp_provider :: string
  rmp_fullLabel :: string

definition buildReasoningProviders ::
  "ModelRegistryData \<Rightarrow> ModelRegistry \<Rightarrow> ReasoningProvider js_object" where
  "buildReasoningProviders modelData registry =
     (let providers =
        foldl (\<lambda>providers cloudProvider.
                 Object_assign_key (cpd_id cloudProvider)
                   \<lparr> rp_name = cpd_name cloudProvider,
                     rp_models =
                       map (\<lambda>m. \<lparr> rm_value = cmd_id m, rm_label = cmd_name m,
                                   rm_description = cmd_description m \<rparr>)
                         (cpd_models cloudProvider) \<rparr>
                   providers)
          [] (getCloudProviders modelData)
      in Object_assign_key ''local''
           \<lparr> rp_name = ''Local AI'',
             rp_models =
               map (\<lambda>model. \<lparr> rm_value = md_id model, rm_label = md_name model,
                               rm_description =
                                 md_description model @ '' ('' @ md_size model @ '')'' \<rparr>)
                 (getAllModels registry) \<rparr>
           providers)"

text \<open>
  \<open>REASONING_PROVIDERS\<close> is computed once, when the module is loaded, from the registry
  as its constructor leaves it.
\<close>

definition REASONING_PROVIDERS :: "ModelRegistryData \<Rightarrow> ReasoningProvider js_object" where
  "REASONING_PROVIDERS modelData = buildReasoningProviders modelData (modelRegistry modelData)"

definition getAllReasoningModels :: "ModelRegistryData \<Rightarrow> ReasoningModelWithProvider list" where
  "getAllReasoningModels modelData =
     concat (map (\<lambda>(providerId, provider).
                    map (\<lambda>model. ReasoningModel.extend model
                                    (ReasoningModelWithProvider.fields providerId
                                       (rp_name provider @ '' '' @ rm_label model)))
                      (rp_models provider))
               (Object_entries (REASONING_PROVIDERS modelData)))"

definition getReasoningModelLabel :: "ModelRegistryData \<Rightarrow> string \<Rightarrow> string" where
  "getReasoningModelLabel modelData modelId =
     or_else (map_option rmp_fullLabel
                (find (\<lambda>m. rm_value m = modelId) (getAllReasoningModels modelData)))
       modelId"

definition getModelProvider :: "ModelRegistryData \<Rightarrow> string \<Rightarrow> string" where
  "getModelProvider modelData modelId =
     (let model = find (\<lambda>m. rm_value m = modelId) (getAllReasoningModels modelData) in
      if model = None then
        if String_includes modelId ''claude'' then ''anthropic''
        else if String_includes modelId ''gemini'' \<and> \<not> String_includes modelId ''gemma''
          then ''gemini''
        else if (String_includes modelId ''gpt-4'' \<or> String_includes modelId ''gpt-5'')
                \<and> \<not> String_includes modelId ''gpt-oss''
          then ''openai''
        else if String_includes modelId ''qwen/''
                \<or> String_includes modelId ''openai/''
                \<or> String_includes modelId ''llama-3.1-8b-instant''
                \<or> String_includes modelId ''llama-3.3-''
                \<or> String_includes modelId ''mixtral-''
                \<or> String_includes modelId ''gemma2-''
          then ''groq''
        else if String_includes modelId ''qwen''
                \<or> String_includes modelId ''llama''
                \<or> String_includes modelId ''mistral''
                \<or> String_includes modelId ''gpt-oss-20b-mxfp4''
          then ''local''
        else or_else (map_option rmp_provider model) ''''
      else or_else (map_option rmp_provider model) '''')"

section \<open>Settings\<close>

text \<open>
  \<open>String(value)\<close>, the serializer of every cell, on a boolean and on a string. As a
  deserializer of a stored string it is the identity too.
\<close>

definition String_of_bool :: "bool \<Rightarrow> string" where
  "String_of_bool b = (if b then ''true'' else ''false'')"

definition String_of_string :: "string \<Rightarrow> string" where
  "String_of_string s = s"

text \<open>
  What the settings hook acts on: the browser's \<open>localStorage\<close>, the methods that
  \<open>window.electronAPI\<close> offers (none when it is undefined), and the calls made so far
  to the desktop shell and to \<open>ReasoningService\<close>, oldest first.
\<close>

datatype external_call =
    saveOpenAIKey string
  | saveAnthropicKey string
  | saveGeminiKey string
  | saveGroqKey string
  | clearApiKeyCache string

record SettingsState =
  localStorage :: "string \<rightharpoonup> string"
  electronAPI :: "string \<Rightarrow> bool"
  calls :: "external_call list"

text \<open>
  The arguments of one \<open>useLocalStorage(key, defaultValue, { serialize, deserialize })\<close>
  call.
\<close>

record 'a SettingsCell =
  key :: string
  defaultValue :: 'a
  serialize :: "'a \<Rightarrow> string"
  deserialize :: "string \<Rightarrow> 'a"

text \<open>
  Modelled from the spec: the hook \<open>useLocalStorage\<close> (the module \<open>./useLocalStorage\<close> is
  not among the sources). A settings cell is a persisted string under its key, typed at
  the boundary: a read deserializes the stored string and falls back to the default when
  nothing is stored; the setter persists the serialized value at once.
\<close>

definition cell_value :: "'a SettingsCell \<Rightarrow> SettingsState \<Rightarrow> 'a" where
  "cell_value cell st =
     (case localStorage st (key cell) of
        None \<Rightarrow> defaultValue cell
      | Some stored \<Rightarrow> deserialize cell stored)"

definition cell_set :: "'a SettingsCell \<Rightarrow> 'a \<Rightarrow> SettingsState \<Rightarrow> SettingsState" where
  "cell_set cell v st = st\<lparr> localStorage := (localStorage st)(key cell \<mapsto> serialize cell v) \<rparr>"

text \<open>The constants of \<open>../config/constants\<close> that \<open>useSettings\<close> reads.\<close>

record API_ENDPOINTS =
  TRANSCRIPTION_BASE :: string
  OPENAI_BASE :: string

subsection \<open>The cells of \<open>useSettings\<close>\<close>

definition useLocalWhisper_cell :: "bool SettingsCell" where
  "useLocalWhisper_cell =
     \<lparr> key = ''useLocalWhisper'', defaultValue = False, serialize = String_of_bool,
       deserialize = (\<lambda>value. value = ''true'') \<rparr>"

definition whisperModel_cell :: "string SettingsCell" where
  "whisperModel_cell =
     \<lparr> key = ''whisperModel'', defaultValue = ''base'', serialize = String_of_string,
       deserialize = String_of_string \<rparr>"

definition allowOpenAIFallback_cell :: "bool SettingsCell" where
  "allowOpenAIFallback_cell =
     \<lparr> key = ''allowOpenAIFallback'', defaultValue = False, serialize = String_of_bool,
       deserialize = (\<lambda>value. value = ''true'') \<rparr>"

definition allowLocalFallback_cell :: "bool SettingsCell" where
  "allowLocalFallback_cell =
     \<lparr> key = ''allowLocalFallback'', defaultValue = False, serialize = String_of_bool,
       deserialize = (\<lambda>value. value = ''true'') \<rparr>"

definition fallbackWhisperModel_cell :: "string SettingsCell" where
  "fallbackWhisperModel_cell =
     \<lparr> key = ''fallbackWhisperModel'', defaultValue = ''base'', serialize = String_of_string,
       deserialize = String_of_string \<rparr>"

definition preferredLanguage_cell :: "string SettingsCell" where
  "preferredLanguage_cell =
     \<lparr> key = ''preferredLanguage'', defaultValue = ''en'', serialize = String_of_string,
       deserialize = String_of_string \<rparr>"

definition cloudTranscriptionProvider_cell :: "string SettingsCell" where
  "cloudTranscriptionProvider_cell =
     \<lparr> key = ''cloudTranscriptionProvider'', defaultValue = ''openai'',
       serialize = String_of_string, deserialize = String_of_string \<rparr>"

definition cloudTranscriptionModel_cell :: "string SettingsCell" where
  "cloudTranscriptionModel_cell =
     \<lparr> key = ''cloudTranscriptionModel'', defaultValue = ''gpt-4o-mini-transcribe'',
       serialize = String_of_string, deserialize = String_of_string \<rparr>"

definition cloudTranscriptionBaseUrl_cell :: "API_ENDPOINTS \<Rightarrow> string SettingsCell" where
  "cloudTranscriptionBaseUrl_cell endpoints =
     \<lparr> key = ''cloudTranscriptionBaseUrl'', defaultValue = TRANSCRIPTION_BASE endpoints,
       serialize = String_of_string, deserialize = String_of_string \<rparr>"

definition cloudReasoningBaseUrl_cell :: "API_ENDPOINTS \<Rightarrow> string SettingsCell" where
  "cloudReasoningBaseUrl_cell endpoints =
     \<lparr> key = ''cloudReasoningBaseUrl'', defaultValue = OPENAI_BASE endpoints,
       serialize = String_of_string, deserialize = String_of_string \<rparr>"

definition useReasoningModel_cell :: "bool SettingsCell" where
  "useReasoningModel_cell =
     \<lparr> key = ''useReasoningModel'', defaultValue = True, serialize = String_of_bool,
       deserialize = (\<lambda>value. value \<noteq> ''false'') \<rparr>"

definition reasoningModel_cell :: "string SettingsCell" where
  "reasoningModel_cell =
     \<lparr> key = ''reasoningModel'', defaultValue = '''', serialize = String_of_string,
       deserialize = String_of_string \<rparr>"

definition openaiApiKey_cell :: "string SettingsCell" where
  "openaiApiKey_cell =
     \<lparr> key = ''openaiApiKey'', defaultValue = '''', serialize = String_of_string,
       deserialize = String_of_string \<rparr>"

definition anthropicApiKey_cell :: "string SettingsCell" where
  "anthropicApiKey_cell =
     \<lparr> key = ''anthropicApiKey'', defaultValue = '''', serialize = String_of_string,
       deserialize = String_of_string \<rparr>"

definition geminiApiKey_cell :: "string SettingsCell" where
  "geminiApiKey_cell =
     \<lparr> key = ''geminiApiKey'', defaultValue = '''', serialize = String_of_string,
       deserialize = String_of_string \<rparr>"

definition groqApiKey_cell :: "string SettingsCell" where
  "groqApiKey_cell =
     \<lparr> key = ''groqApiKey'', defaultValue = '''', serialize = String_of_string,
       deserialize = String_of_string \<rparr>"

definition dictationKey_cell :: "string SettingsCell" where
  "dictationKey_cell =
     \<lparr> key = ''dictationKey'', defaultValue = '''', serialize = String_of_string,
       deserialize = String_of_string \<rparr>"

definition activationMode_cell :: "string SettingsCell" where
  "activationMode_cell =
     \<lparr> key = ''activationMode'', defaultValue = ''tap'', serialize = String_of_string,
       deserialize = (\<lambda>value. if value = ''push'' then ''push'' else ''tap'') \<rparr>"

definition preferBuiltInMic_cell :: "bool SettingsCell" where
  "preferBuiltInMic_cell =
     \<lparr> key = ''preferBuiltInMic'', defaultValue = True, serialize = String_of_bool,
       deserialize = (\<lambda>value. value \<noteq> ''false'') \<rparr>"

definition selectedMicDeviceId_cell :: "string SettingsCell" where
  "selectedMicDeviceId_cell =
     \<lparr> key = ''selectedMicDeviceId'', defaultValue = '''', serialize = String_of_string,
       deserialize = String_of_string \<rparr>"

subsection \<open>Setters\<close>

text \<open>
  An API key's setter stores the key, passes it to the desktop shell when the shell
  offers the method (\<open>window.electronAPI?.saveOpenAIKey?.(key)\<close>), and clears the
  reasoning service's cached key of that provider.
\<close>

definition optional_call :: "string \<Rightarrow> external_call \<Rightarrow> SettingsState \<Rightarrow> SettingsState" where
  "optional_call method c st =
     (if electronAPI st method then st\<lparr> calls := calls st @ [c] \<rparr> else st)"

definition ReasoningService_clearApiKeyCache :: "string \<Rightarrow> SettingsState \<Rightarrow> SettingsState" where
  "ReasoningService_clearApiKeyCache p st = st\<lparr> calls := calls st @ [clearApiKeyCache p] \<rparr>"

definition setOpenaiApiKey :: "string \<Rightarrow> SettingsState \<Rightarrow> SettingsState" where
  "setOpenaiApiKey k st =
     ReasoningService_clearApiKeyCache ''openai''
       (optional_call ''saveOpenAIKey'' (saveOpenAIKey k) (cell_set openaiApiKey_cell k st))"

definition setAnthropicApiKey :: "string \<Rightarrow> SettingsState \<Rightarrow> SettingsState" where
  "setAnthropicApiKey k st =
     ReasoningService_clearApiKeyCache ''anthropic''
       (optional_call ''saveAnthropicKey'' (saveAnthropicKey k)
          (cell_set anthropicApiKey_cell k st))"

definition setGeminiApiKey :: "string \<Rightarrow> SettingsState \<Rightarrow> SettingsState" where
  "setGeminiApiKey k st =
     ReasoningService_clearApiKeyCache ''gemini''
       (optional_call ''saveGeminiKey'' (saveGeminiKey k) (cell_set geminiApiKey_cell k st))"

definition setGroqApiKey :: "string \<Rightarrow> SettingsState \<Rightarrow> SettingsState" where
  "setGroqApiKey k st =
     ReasoningService_clearApiKeyCache ''groq''
       (optional_call ''saveGroqKey'' (saveGroqKey k) (cell_set groqApiKey_cell k st))"

subsection \<open>What \<open>useSettings\<close> exposes\<close>

record Settings =
  useLocalWhisper :: bool
  whisperModel :: string
  allowOpenAIFallback :: bool
  allowLocalFallback :: bool
  fallbackWhisperModel :: string
  preferredLanguage :: string
  cloudTranscriptionProvider :: string
  cloudTranscriptionModel :: string
  cloudTranscriptionBaseUrl :: string
  cloudReasoningBaseUrl :: string
  useReasoningModel :: bool
  reasoningModel :: string
  reasoningProvider :: string
  openaiApiKey :: string
  anthropicApiKey :: string
  geminiApiKey :: string
  groqApiKey :: string
  dictationKey :: string
  activationMode :: string
  preferBuiltInMic :: bool
  selectedMicDeviceId :: string

text \<open>
  The values of the object that \<open>useSettings()\<close> returns; its setters are the functions
  above and below, which take the state and return the new one. The reasoning provider is
  the one computed value.
\<close>

definition useSettings :: "API_ENDPOINTS \<Rightarrow> ModelRegistryData \<Rightarrow> SettingsState \<Rightarrow> Settings" where
  "useSettings endpoints modelData st =
     \<lparr> useLocalWhisper = cell_value useLocalWhisper_cell st,
       whisperModel = cell_value whisperModel_cell st,
       allowOpenAIFallback = cell_value allowOpenAIFallback_cell st,
       allowLocalFallback = cell_value allowLocalFallback_cell st,
       fallbackWhisperModel = cell_value fallbackWhisperModel_cell st,
       preferredLanguage = cell_value preferredLanguage_cell st,
       cloudTranscriptionProvider = cell_value cloudTranscriptionProvider_cell st,
       cloudTranscriptionModel = cell_value cloudTranscriptionModel_cell st,
       cloudTranscriptionBaseUrl = cell_value (cloudTranscriptionBaseUrl_cell endpoints) st,
       cloudReasoningBaseUrl = cell_value (cloudReasoningBaseUrl_cell endpoints) st,
       useReasoningModel = cell_value useReasoningModel_cell st,
       reasoningModel = cell_value reasoningModel_cell st,
       reasoningProvider = getModelProvider modelData (cell_value reasoningModel_cell st),
       openaiApiKey = cell_value openaiApiKey_cell st,
       anthropicApiKey = cell_value anthropicApiKey_cell st,
       geminiApiKey = cell_value geminiApiKey_cell st,
       groqApiKey = cell_value groqApiKey_cell st,
       dictationKey = cell_value dictationKey_cell st,
       activationMode = cell_value activationMode_cell st,
       preferBuiltInMic = cell_value preferBuiltInMic_cell st,
       selectedMicDeviceId = cell_value selectedMicDeviceId_cell st \<rparr>"

subsection \<open>Batch operations\<close>

text \<open>\<open>if (settings.field !== undefined) setField(settings.field)\<close>.\<close>

definition if_defined :: "'a option \<Rightarrow> ('a \<Rightarrow> SettingsState \<Rightarrow> SettingsState)
    \<Rightarrow> SettingsState \<Rightarrow> SettingsState" where
  "if_defined field setter st = (case field of None \<Rightarrow> st | Some v \<Rightarrow> setter v st)"

text \<open>\<open>Partial<TranscriptionSettings>\<close>: every field may be absent.\<close>

record TranscriptionSettings =
  ts_useLocalWhisper :: "bool option"
  ts_whisperModel :: "string option"
  ts_allowOpenAIFallback :: "bool option"
  ts_allowLocalFallback :: "bool option"
  ts_fallbackWhisperModel :: "string option"
  ts_preferredLanguage :: "string option"
  ts_cloudTranscriptionProvider :: "string option"
  ts_cloudTranscriptionModel :: "string option"
  ts_cloudTranscriptionBaseUrl :: "string option"

definition updateTranscriptionSettings ::
  "API_ENDPOINTS \<Rightarrow> TranscriptionSettings \<Rightarrow> SettingsState \<Rightarrow> SettingsState" where
  "updateTranscriptionSettings endpoints settings st =
     (let st1 = if_defined (ts_useLocalWhisper settings) (cell_set useLocalWhisper_cell) st;
          st2 = if_defined (ts_whisperModel settings) (cell_set whisperModel_cell) st1;
          st3 = if_defined (ts_allowOpenAIFallback settings)
                  (cell_set allowOpenAIFallback_cell) st2;
          st4 = if_defined (ts_allowLocalFallback settings)
                  (cell_set allowLocalFallback_cell) st3;
          st5 = if_defined (ts_fallbackWhisperModel settings)
                  (cell_set fallbackWhisperModel_cell) st4;
          st6 = if_defined (ts_preferredLanguage settings)
                  (cell_set preferredLanguage_cell) st5;
          st7 = if_defined (ts_cloudTranscriptionProvider settings)
                  (cell_set cloudTranscriptionProvider_cell) st6;
          st8 = if_defined (ts_cloudTranscriptionModel settings)
                  (cell_set cloudTranscriptionModel_cell) st7
      in if_defined (ts_cloudTranscriptionBaseUrl settings)
           (cell_set (cloudTranscriptionBaseUrl_cell endpoints)) st8)"

text \<open>\<open>Partial<ReasoningSettings>\<close>.\<close>

record ReasoningSettings =
  rs_useReasoningModel :: "bool option"
  rs_reasoningModel :: "string option"
  rs_reasoningProvider :: "string option"
  rs_cloudReasoningBaseUrl :: "string option"

definition updateReasoningSettings ::
  "API_ENDPOINTS \<Rightarrow> ReasoningSettings \<Rightarrow> SettingsState \<Rightarrow> SettingsState" where
  "updateReasoningSettings endpoints settings st =
     (let st1 = if_defined (rs_useReasoningModel settings) (cell_set useReasoningModel_cell) st;
          st2 = if_defined (rs_reasoningModel settings) (cell_set reasoningModel_cell) st1
      in if_defined (rs_cloudReasoningBaseUrl settings)
           (cell_set (cloudReasoningBaseUrl_cell endpoints)) st2)"

text \<open>\<open>Partial<ApiKeySettings>\<close>.\<close>

record ApiKeySettings =
  ak_openaiApiKey :: "string option"
  ak_anthropicApiKey :: "string option"
  ak_geminiApiKey :: "string option"
  ak_groqApiKey :: "string option"

definition updateApiKeys :: "ApiKeySettings \<Rightarrow> SettingsState \<Rightarrow> SettingsState" where
  "updateApiKeys keys st =
     (let st1 = if_defined (ak_openaiApiKey keys) setOpenaiApiKey st;
          st2 = if_defined (ak_anthropicApiKey keys) setAnthropicApiKey st1;
          st3 = if_defined (ak_geminiApiKey keys) setGeminiApiKey st2
      in if_defined (ak_groqApiKey keys) setGroqApiKey st3)"

section \<open>The wording of the specification\<close>

text \<open>
  The specification words the fallback of the provider resolver as an ordered table of
  rules, the first matching rule winning: a rule names the substrings of which the
  identifier must contain at least one, the substrings it must not contain, and the
  provider. No rule matching, the result is the empty string. This table is written from
  the specification, to be compared with \<open>getModelProvider\<close>.
\<close>

definition spec_heuristic_table :: "(string list \<times> string list \<times> string) list" where
  "spec_heuristic_table =
     [([''claude''], [], ''anthropic''),
      ([''gemini''], [''gemma''], ''gemini''),
      ([''gpt-4'', ''gpt-5''], [''gpt-oss''], ''openai''),
      ([''qwen/'', ''openai/'', ''llama-3.1-8b-instant'', ''llama-3.3-'', ''mixtral-'',
        ''gemma2-''], [], ''groq''),
      ([''qwen'', ''llama'', ''mistral'', ''gpt-oss-20b-mxfp4''], [], ''local'')]"

fun spec_table_lookup :: "(string list \<times> string list \<times> string) list \<Rightarrow> string \<Rightarrow> string" where
  "spec_table_lookup [] modelId = ''''"
| "spec_table_lookup ((any_of, none_of, p) # rules) modelId =
     (if list_ex (String_includes modelId) any_of \<and> \<not> list_ex (String_includes modelId) none_of
      then p else spec_table_lookup rules modelId)"

text \<open>
  The specification words the prompt formatter as a substitution of the marker's first
  occurrence, if there is one, by the given text as it stands; later occurrences stay.
  This function is written from the specification, to be compared with \<open>String_replace\<close>.
\<close>

fun spec_replace_first :: "string \<Rightarrow> string \<Rightarrow> string \<Rightarrow> string" where
  "spec_replace_first [] marker r = (if marker = [] then r else [])"
| "spec_replace_first (c # cs) marker r =
     (if prefix marker (c # cs) then r @ drop (length marker) (c # cs)
      else c # spec_replace_first cs marker r)"

section \<open>Example data\<close>

definition example_model :: "string \<Rightarrow> ModelDefinition" where
  "example_model i =
     \<lparr> md_id = i, md_name = i, md_size = ''4.7GB'', md_sizeBytes = 4700000000,
       md_description = ''instruct'', md_fileName = i @ ''.gguf'',
       md_quantization = ''q4_k_m'', md_contextLength = 32768,
       md_hfRepo = ''org/'' @ i, md_recommended = None \<rparr>"

definition example_qwen :: LocalProviderData where
  "example_qwen =
     \<lparr> lpd_id = ''qwen'', lpd_name = ''Qwen'', lpd_baseUrl = ''https://huggingface.co'',
       lpd_promptTemplate = ''SYS:{system} USR:{user}'',
       lpd_models = [example_model ''qwen2.5-7b-instruct''] \<rparr>"

definition example_llama :: LocalProviderData where
  "example_llama =
     \<lparr> lpd_id = ''llama'', lpd_name = ''Llama'', lpd_baseUrl = ''https://huggingface.co'',
       lpd_promptTemplate = ''{system} {user}'',
       lpd_models = [example_model ''llama-3.2-3b'', example_model ''llama-3.2-1b''] \<rparr>"

text \<open>A second entry under the provider id of \<open>example_qwen\<close>, with another model.\<close>

definition example_qwen_again :: LocalProviderData where
  "example_qwen_again =
     \<lparr> lpd_id = ''qwen'', lpd_name = ''Qwen 3'', lpd_baseUrl = ''https://huggingface.co'',
       lpd_promptTemplate = ''{system} {user}'',
       lpd_models = [example_model ''qwen3-8b''] \<rparr>"

definition example_openai :: CloudProviderData where
  "example_openai =
     \<lparr> cpd_id = ''openai'', cpd_name = ''OpenAI'',
       cpd_models = [\<lparr> cmd_id = ''gpt-5'', cmd_name = ''GPT-5'', cmd_description = ''flagship'',
                       cmd_disableThinking = None \<rparr>] \<rparr>"

definition example_catalog :: ModelRegistryData where
  "example_catalog =
     \<lparr> cloudProviders = [example_openai], localProviders = [example_qwen, example_llama] \<rparr>"

definition example_endpoints :: API_ENDPOINTS where
  "example_endpoints =
     \<lparr> TRANSCRIPTION_BASE = ''https://api.openai.com/v1'',
       OPENAI_BASE = ''https://api.openai.com/v1'' \<rparr>"

definition example_state :: SettingsState where
  "example_state =
     \<lparr> localStorage = [''openaiApiKey'' \<mapsto> ''sk-1'', ''reasoningModel'' \<mapsto> ''gpt-5''],
       electronAPI = (\<lambda>method. True), calls = [] \<rparr>"

section \<open>Facts about the string operations\<close>

text \<open>\<open>String_includes\<close> is the contiguous-sublist relation of the library.\<close>

lemma String_includes_sublist: "String_includes s pat \<longleftrightarrow> sublist pat s"
  by (induction s) (auto simp: sublist_Cons_right)

lemma StringIndexOf_None_iff: "StringIndexOf s pat = None \<longleftrightarrow> \<not> String_includes s pat"
  by (induction s) auto

text \<open>A replacement text without a dollar sign is inserted as it stands.\<close>

lemma GetSubstitution_no_dollar:
  "CHR ''$'' \<notin> set replacement \<Longrightarrow>
     GetSubstitution matched str position replacement = replacement"
  by (induction matched str position replacement rule: GetSubstitution.induct) auto

text \<open>
  A pattern whose first character does not occur before it is found right where it
  stands.
\<close>

lemma StringIndexOf_append_fresh:
  "pat = p # ps \<Longrightarrow> p \<notin> set a \<Longrightarrow> StringIndexOf (a @ pat @ rest) pat = Some (length a)"
  by (induction a) (auto simp: prefix_def)

lemma String_replace_append_fresh:
  assumes "pat = p # ps" "p \<notin> set a" "CHR ''$'' \<notin> set replacement"
  shows "String_replace (a @ pat @ rest) pat replacement = a @ replacement @ rest"
  using assms
  by (simp add: String_replace_def StringIndexOf_append_fresh GetSubstitution_no_dollar
      del: append.simps)

section \<open>The prompt formatter\<close>

text \<open>
  Claim C3. The formatter is to put \<open>systemPrompt\<close> in place of the first \<open>{system}\<close> and
  \<open>text\<close> in place of the first \<open>{user}\<close>, for every template, text and system prompt.
  The documented example holds: the template \<open>SYS:{system} USR:{user}\<close> with the text
  \<open>hello\<close> and the system prompt \<open>be terse\<close> gives \<open>SYS:be terse USR:hello\<close>. But
  \<open>String.prototype.replace\<close> reads its second argument as a replacement pattern: with the
  system prompt \<open>cost: $$5\<close> the same template gives \<open>SYS:cost: $5 USR:hello\<close>, which
  is not the system prompt put in place of the marker.
\<close>

theorem formatPrompt_dollar_sequence:
  "createPromptFormatter ''SYS:{system} USR:{user}'' ''hello'' ''be terse''
     = ''SYS:be terse USR:hello''
   \<and> createPromptFormatter ''SYS:{system} USR:{user}'' ''hello'' ''cost: $$5''
     = ''SYS:cost: $5 USR:hello''
   \<and> createPromptFormatter ''SYS:{system} USR:{user}'' ''hello'' ''cost: $$5''
     \<noteq> ''SYS:cost: $$5 USR:hello''"
  by (simp add: createPromptFormatter_def String_replace_def)

text \<open>
  Claim C9. The system marker is substituted first. So for a template that is
  \<open>{system}\<close>, some text, then \<open>{user}\<close>, and a system prompt that is \<open>a\<close>, then
  \<open>{user}\<close>, then \<open>b\<close>, the user text lands at the \<open>{user}\<close> inside the substituted
  system prompt and the template's own \<open>{user}\<close> stays in the output as it is. This holds
  whenever no dollar sign occurs in the system prompt or in the text and no opening brace
  occurs in \<open>a\<close>.
\<close>

theorem formatPrompt_user_marker_in_system_prompt:
  assumes "CHR ''$'' \<notin> set a \<union> set b \<union> set text" and "CHR ''{'' \<notin> set a"
  shows "createPromptFormatter (''{system}'' @ mid @ ''{user}'') text (a @ ''{user}'' @ b)
           = a @ text @ b @ mid @ ''{user}''"
proof -
  have sys: "CHR ''$'' \<notin> set (a @ ''{user}'' @ b)"
    using assms(1) by simp
  have first:
    "String_replace (''{system}'' @ mid @ ''{user}'') ''{system}'' (a @ ''{user}'' @ b)
       = a @ ''{user}'' @ (b @ mid @ ''{user}'')"
    using String_replace_append_fresh
      [of "''{system}''" _ _ "[]" "a @ ''{user}'' @ b" "mid @ ''{user}''"] sys
    by simp
  have second:
    "String_replace (a @ ''{user}'' @ (b @ mid @ ''{user}'')) ''{user}'' text
       = a @ text @ (b @ mid @ ''{user}'')"
    using assms
    by (intro String_replace_append_fresh [where p = "CHR ''{''" and ps = "''user}''"]) auto
  show ?thesis
    unfolding createPromptFormatter_def first second by simp
qed

text \<open>
  The template \<open>{system} | {user}\<close> with the system prompt \<open>see {user}!\<close> and the text
  \<open>hi\<close>.
\<close>

theorem formatPrompt_user_marker_in_system_prompt_witness:
  "createPromptFormatter ''{system} | {user}'' ''hi'' ''see {user}!'' = ''see hi! | {user}''"
  using formatPrompt_user_marker_in_system_prompt [of "''see ''" "''!''" "''hi''" "'' | ''"]
  by simp

section \<open>The model registry\<close>

lemma foldl_push: "foldl (\<lambda>acc x. acc @ [f x]) acc xs = acc @ map f xs"
  by (induction xs arbitrary: acc) simp_all

lemma foldl_append_each: "foldl (\<lambda>acc x. acc @ g x) acc xs = acc @ concat (map g xs)"
  by (induction xs arbitrary: acc) simp_all

text \<open>The two loops of \<open>getAllModels\<close> flatten the providers' model lists in order.\<close>

lemma getAllModels_concat:
  "getAllModels providers =
     concat (map (\<lambda>p. map (\<lambda>m. withProviderId m (mp_id p)) (mp_models p))
               (Map_values providers))"
  by (simp add: getAllModels_def foldl_push foldl_append_each)

lemma Map_set_fresh: "k \<notin> fst ` set m \<Longrightarrow> Map_set k v m = m @ [(k, v)]"
  by (induction m) auto

lemma Map_set_mem: "e \<in> set (Map_set k v m) \<Longrightarrow> e = (k, v) \<or> e \<in> set m"
  by (induction m) (auto split: if_splits)

lemma Map_set_has: "(k, v) \<in> set (Map_set k v m)"
  by (induction m) auto

lemma Map_set_values_mem:
  "p \<in> set (Map_values (Map_set k v m)) \<Longrightarrow> p = v \<or> p \<in> set (Map_values m)"
  unfolding Map_values_def using Map_set_mem [of _ k v m] by fastforce

lemma md_id_withProviderId: "md_id (withProviderId m p) = md_id m"
  by (simp add: withProviderId_def ModelDefinition.extend_def)

lemma mwp_providerId_withProviderId: "mwp_providerId (withProviderId m p) = p"
  by (simp add: withProviderId_def ModelDefinition.extend_def ModelWithProviderId.fields_def)

lemma mp_id_providerFromData: "mp_id (providerFromData pd) = lpd_id pd"
  by (simp add: providerFromData_def)

lemma mp_models_providerFromData: "mp_models (providerFromData pd) = lpd_models pd"
  by (simp add: providerFromData_def)

text \<open>Providers under new, pairwise different ids are appended in the order given.\<close>

lemma register_fresh:
  assumes "distinct (map mp_id ps)" "mp_id ` set ps \<inter> fst ` set providers = {}"
  shows "fold registerProvider ps providers = providers @ map (\<lambda>p. (mp_id p, p)) ps"
  using assms
proof (induction ps arbitrary: providers)
  case Nil
  then show ?case by simp
next
  case (Cons p ps)
  from Cons.prems have fresh: "mp_id p \<notin> fst ` set providers" by auto
  then have step: "registerProvider p providers = providers @ [(mp_id p, p)]"
    by (simp add: registerProvider_def Map_set_fresh)
  from Cons.prems have "mp_id ` set ps \<inter> fst ` set (providers @ [(mp_id p, p)]) = {}"
    by auto
  with Cons.IH [of "providers @ [(mp_id p, p)]"] Cons.prems step show ?case
    by simp
qed

text \<open>
  Claim C7, as stated, fails. The model lists of \<open>example_qwen\<close>, \<open>example_llama\<close> and
  \<open>example_qwen_again\<close> share no identifier, but the first and the third provider both
  have the id \<open>qwen\<close>. Registered in this order, the third overwrites the first in the
  first one's place: \<open>getAllModels\<close> returns three models, not the four of the three
  providers, and the model of the provider registered last comes before the models of
  the provider registered second.
\<close>

theorem getAllModels_shadowed_provider_counterexample:
  "distinct (map md_id (lpd_models example_qwen @ lpd_models example_llama
                          @ lpd_models example_qwen_again))
   \<and> map md_id (getAllModels (fold registerProvider
         [providerFromData example_qwen, providerFromData example_llama,
          providerFromData example_qwen_again] []))
       = [''qwen3-8b'', ''llama-3.2-3b'', ''llama-3.2-1b'']
   \<and> length (getAllModels (fold registerProvider
         [providerFromData example_qwen, providerFromData example_llama,
          providerFromData example_qwen_again] []))
       \<noteq> length (mp_models (providerFromData example_qwen))
           + length (mp_models (providerFromData example_llama))
           + length (mp_models (providerFromData example_qwen_again))"
  by (simp add: getAllModels_concat Map_values_def registerProvider_def mp_id_providerFromData
      mp_models_providerFromData md_id_withProviderId
      example_qwen_def example_llama_def example_qwen_again_def example_model_def)

text \<open>
  Claim C7, amended. After registering, in order, providers \<open>ps\<close> whose provider ids are
  pairwise different and not yet in the registry, \<open>getAllModels\<close> returns what it
  returned before followed by the models of \<open>ps\<close>, provider by provider in registration
  order and within a provider in the order of its model list, each model carrying its
  provider's id; the length grows by the sum of the model counts of \<open>ps\<close>. Whether the
  model lists share identifiers does not matter.
\<close>

theorem getAllModels_registration_order:
  assumes "distinct (map mp_id ps)" "mp_id ` set ps \<inter> fst ` set providers = {}"
  shows "getAllModels (fold registerProvider ps providers) =
           getAllModels providers
             @ concat (map (\<lambda>p. map (\<lambda>m. withProviderId m (mp_id p)) (mp_models p)) ps)
         \<and> length (getAllModels (fold registerProvider ps providers)) =
             length (getAllModels providers) + sum_list (map (\<lambda>p. length (mp_models p)) ps)"
proof -
  have eq: "getAllModels (fold registerProvider ps providers) =
           getAllModels providers
             @ concat (map (\<lambda>p. map (\<lambda>m. withProviderId m (mp_id p)) (mp_models p)) ps)"
    by (simp add: register_fresh [OF assms] getAllModels_concat Map_values_def comp_def)
  have "length (concat (map (\<lambda>p. map (\<lambda>m. withProviderId m (mp_id p)) (mp_models p)) ps))
          = sum_list (map (\<lambda>p. length (mp_models p)) ps)"
    by (simp add: length_concat comp_def)
  with eq show ?thesis by simp
qed

text \<open>The providers \<open>qwen\<close> (one model) and \<open>llama\<close> (two models), on an empty registry.\<close>

theorem getAllModels_registration_order_witness:
  "map md_id (getAllModels (fold registerProvider
       [providerFromData example_qwen, providerFromData example_llama] []))
     = [''qwen2.5-7b-instruct'', ''llama-3.2-3b'', ''llama-3.2-1b'']
   \<and> map mwp_providerId (getAllModels (fold registerProvider
       [providerFromData example_qwen, providerFromData example_llama] []))
     = [''qwen'', ''llama'', ''llama'']
   \<and> length (getAllModels (fold registerProvider
       [providerFromData example_qwen, providerFromData example_llama] [])) = 1 + 2"
proof -
  have d: "distinct (map mp_id [providerFromData example_qwen, providerFromData example_llama])"
    by (simp add: mp_id_providerFromData example_qwen_def example_llama_def)
  have f: "mp_id ` set [providerFromData example_qwen, providerFromData example_llama]
             \<inter> fst ` set ([] :: ModelRegistry) = {}"
    by simp
  show ?thesis
    using getAllModels_registration_order [OF d f]
    by (simp add: getAllModels_concat Map_values_def mp_id_providerFromData
        mp_models_providerFromData md_id_withProviderId mwp_providerId_withProviderId
        example_qwen_def example_llama_def example_model_def)
qed

text \<open>Every provider of the registry as constructed comes from an entry of the catalog.\<close>

lemma foldl_registerProvider_values:
  "p \<in> set (Map_values (foldl (\<lambda>providers x. registerProvider (f x) providers) providers xs))
     \<Longrightarrow> p \<in> set (Map_values providers) \<or> (\<exists>x \<in> set xs. p = f x)"
proof (induction xs arbitrary: providers)
  case Nil
  then show ?case by simp
next
  case (Cons x xs)
  from Cons.IH [OF Cons.prems [simplified]]
  show ?case
  proof
    assume "p \<in> set (Map_values (registerProvider (f x) providers))"
    then have "p = f x \<or> p \<in> set (Map_values providers)"
      unfolding registerProvider_def by (rule Map_set_values_mem)
    then show ?thesis by auto
  next
    assume "\<exists>x \<in> set xs. p = f x"
    then show ?thesis by auto
  qed
qed

lemma modelRegistry_values:
  "p \<in> set (getAllProviders (modelRegistry modelData)) \<Longrightarrow>
     \<exists>providerData \<in> set (localProviders modelData). p = providerFromData providerData"
  unfolding modelRegistry_def registerProvidersFromData_def getAllProviders_def
  by (drule foldl_registerProvider_values) (simp add: Map_values_def)

lemma example_registry:
  "modelRegistry example_catalog =
     [(''qwen'', providerFromData example_qwen), (''llama'', providerFromData example_llama)]"
  by (simp add: modelRegistry_def registerProvidersFromData_def registerProvider_def
      example_catalog_def mp_id_providerFromData example_qwen_def example_llama_def)

text \<open>
  Claim C8. For every provider of the registry built from the catalog and every model,
  \<open>getDownloadUrl(model)\<close> is the provider's base URL, a slash, the model's \<open>hfRepo\<close>,
  \<open>/resolve/main/\<close> and the model's \<open>fileName\<close>.
\<close>

theorem getDownloadUrl_composition:
  assumes "p \<in> set (getAllProviders (modelRegistry modelData))"
  shows "mp_getDownloadUrl p model
           = mp_baseUrl p @ ''/'' @ md_hfRepo model @ ''/resolve/main/'' @ md_fileName model"
proof -
  from assms obtain providerData where "p = providerFromData providerData"
    by (blast dest: modelRegistry_values)
  then show ?thesis by (simp add: providerFromData_def)
qed

text \<open>The provider \<open>qwen\<close> of the example catalog and its model.\<close>

theorem getDownloadUrl_composition_witness:
  "providerFromData example_qwen \<in> set (getAllProviders (modelRegistry example_catalog))
   \<and> mp_getDownloadUrl (providerFromData example_qwen) (example_model ''qwen2.5-7b-instruct'')
       = ''https://huggingface.co/org/qwen2.5-7b-instruct/resolve/main/qwen2.5-7b-instruct.gguf''"
proof -
  have h: "providerFromData example_qwen \<in> set (getAllProviders (modelRegistry example_catalog))"
    by (simp add: example_registry getAllProviders_def Map_values_def)
  have b: "mp_baseUrl (providerFromData example_qwen) = ''https://huggingface.co''"
    by (simp add: providerFromData_def example_qwen_def)
  show ?thesis
    using h getDownloadUrl_composition [OF h, of "example_model ''qwen2.5-7b-instruct''"]
    by (simp add: b example_model_def)
qed

section \<open>The provider resolver\<close>

lemma Object_assign_key_mem:
  "e \<in> set (Object_assign_key k v obj) \<Longrightarrow> e = (k, v) \<or> e \<in> set obj"
  by (auto simp: Object_assign_key_def dest: Map_set_mem split: if_splits)

lemma foldl_Object_assign_key_mem:
  "e \<in> set (foldl (\<lambda>obj x. Object_assign_key (kf x) (vf x) obj) obj xs) \<Longrightarrow>
     e \<in> set obj \<or> (\<exists>x \<in> set xs. e = (kf x, vf x))"
proof (induction xs arbitrary: obj)
  case Nil
  then show ?case by simp
next
  case (Cons x xs)
  from Cons.IH [OF Cons.prems [simplified]]
  show ?case
  proof
    assume "e \<in> set (Object_assign_key (kf x) (vf x) obj)"
    then have "e = (kf x, vf x) \<or> e \<in> set obj" by (rule Object_assign_key_mem)
    then show ?thesis by auto
  next
    assume "\<exists>x \<in> set xs. e = (kf x, vf x)"
    then show ?thesis by auto
  qed
qed

text \<open>The order of enumeration apart, an object's entries are its own properties.\<close>

lemma set_Object_entries: "set (Object_entries obj) = set obj"
  by (auto simp: Object_entries_def)

text \<open>The bucket \<open>local\<close> is always there, and it lists the registry's models.\<close>

lemma REASONING_PROVIDERS_local:
  "(''local'',
     \<lparr> rp_name = ''Local AI'',
       rp_models = map (\<lambda>model. \<lparr> rm_value = md_id model, rm_label = md_name model,
                                   rm_description =
                                     md_description model @ '' ('' @ md_size model @ '')'' \<rparr>)
                     (getAllModels (modelRegistry modelData)) \<rparr>)
   \<in> set (REASONING_PROVIDERS modelData)"
  by (simp add: REASONING_PROVIDERS_def buildReasoningProviders_def Object_assign_key_def
      Map_set_has)

text \<open>Every bucket is the bucket \<open>local\<close> or the projection of a cloud provider.\<close>

lemma REASONING_PROVIDERS_mem:
  assumes "(k, rp) \<in> set (REASONING_PROVIDERS modelData)"
  shows "(k = ''local''
          \<and> rm_value ` set (rp_models rp) = md_id ` set (getAllModels (modelRegistry modelData)))
         \<or> (\<exists>cp \<in> set (cloudProviders modelData).
               k = cpd_id cp \<and> rm_value ` set (rp_models rp) = cmd_id ` set (cpd_models cp))"
proof -
  from assms [unfolded REASONING_PROVIDERS_def buildReasoningProviders_def Let_def]
  show ?thesis
  proof (elim Object_assign_key_mem [THEN disjE])
    assume "(k, rp) = (''local'',
       \<lparr> rp_name = ''Local AI'',
         rp_models = map (\<lambda>model. \<lparr> rm_value = md_id model, rm_label = md_name model,
                                   rm_description =
                                     md_description model @ '' ('' @ md_size model @ '')'' \<rparr>)
                     (getAllModels (modelRegistry modelData)) \<rparr>)"
    then have "k = ''local''"
      and "rm_value ` set (rp_models rp) = md_id ` set (getAllModels (modelRegistry modelData))"
      by (simp_all add: image_image)
    then show ?thesis by blast
  next
    assume "(k, rp) \<in> set (foldl (\<lambda>providers cloudProvider.
                 Object_assign_key (cpd_id cloudProvider)
                   \<lparr> rp_name = cpd_name cloudProvider,
                     rp_models =
                       map (\<lambda>m. \<lparr> rm_value = cmd_id m, rm_label = cmd_name m,
                                   rm_description = cmd_description m \<rparr>)
                         (cpd_models cloudProvider) \<rparr>
                   providers)
          [] (getCloudProviders modelData))"
    from foldl_Object_assign_key_mem [OF this]
    obtain cp where "cp \<in> set (cloudProviders modelData)" "k = cpd_id cp"
      "rp_models rp = map (\<lambda>m. \<lparr> rm_value = cmd_id m, rm_label = cmd_name m,
                                   rm_description = cmd_description m \<rparr>) (cpd_models cp)"
      by (auto simp: getCloudProviders_def)
    moreover from this have "rm_value ` set (rp_models rp) = cmd_id ` set (cpd_models cp)"
      by (simp add: image_image)
    ultimately show ?thesis by blast
  qed
qed

lemma getAllReasoningModels_mem:
  "x \<in> set (getAllReasoningModels modelData) \<longleftrightarrow>
     (\<exists>(k, rp) \<in> set (REASONING_PROVIDERS modelData). \<exists>model \<in> set (rp_models rp).
        x = ReasoningModel.extend model
              (ReasoningModelWithProvider.fields k (rp_name rp @ '' '' @ rm_label model)))"
  by (auto simp: getAllReasoningModels_def set_Object_entries)

lemma rm_value_extend: "rm_value (ReasoningModel.extend model ext) = rm_value model"
  by (simp add: ReasoningModel.extend_def)

lemma rmp_provider_extend:
  "rmp_provider (ReasoningModel.extend model (ReasoningModelWithProvider.fields k l)) = k"
  by (simp add: ReasoningModel.extend_def ReasoningModelWithProvider.fields_def)

lemma find_SomeD: "find P xs = Some x \<Longrightarrow> x \<in> set xs \<and> P x"
  by (induction xs) (auto split: if_splits)

text \<open>A hit in the flattened view decides the result; the heuristics are not consulted.\<close>

lemma getModelProvider_hit:
  assumes "find (\<lambda>m. rm_value m = modelId) (getAllReasoningModels modelData) = Some x"
  shows "getModelProvider modelData modelId = rmp_provider x"
  using assms by (simp add: getModelProvider_def)

text \<open>On a miss the chain of conditionals is the table of the specification.\<close>

lemma getModelProvider_miss:
  assumes "find (\<lambda>m. rm_value m = modelId) (getAllReasoningModels modelData) = None"
  shows "getModelProvider modelData modelId = spec_table_lookup spec_heuristic_table modelId"
  using assms by (simp add: getModelProvider_def spec_heuristic_table_def)

lemma map_of_find:
  "map_of (map (\<lambda>x. (f x, g x)) xs) a = map_option g (find (\<lambda>x. f x = a) xs)"
  by (induction xs) auto

lemma getModelProvider_lookup:
  "getModelProvider modelData modelId =
     (case map_of (map (\<lambda>x. (rm_value x, rmp_provider x)) (getAllReasoningModels modelData))
             modelId of
        None \<Rightarrow> spec_table_lookup spec_heuristic_table modelId
      | Some p \<Rightarrow> p)"
proof (cases "find (\<lambda>m. rm_value m = modelId) (getAllReasoningModels modelData)")
  case None
  then show ?thesis by (simp add: map_of_find getModelProvider_miss)
next
  case (Some x)
  then show ?thesis by (simp add: map_of_find getModelProvider_hit)
qed

subsection \<open>The example catalog\<close>

lemma example_getAllModels:
  "getAllModels (modelRegistry example_catalog) =
     [withProviderId (example_model ''qwen2.5-7b-instruct'') ''qwen'',
      withProviderId (example_model ''llama-3.2-3b'') ''llama'',
      withProviderId (example_model ''llama-3.2-1b'') ''llama'']"
  by (simp add: example_registry getAllModels_concat Map_values_def mp_id_providerFromData
      mp_models_providerFromData example_qwen_def example_llama_def)

lemma not_array_index_openai: "\<not> is_array_index ''openai''"
  by (simp add: is_array_index_def is_digit_def)

lemma not_array_index_local: "\<not> is_array_index ''local''"
  by (simp add: is_array_index_def is_digit_def)

lemma example_reasoning_models:
  "map (\<lambda>x. (rm_value x, rmp_provider x)) (getAllReasoningModels example_catalog) =
     [(''gpt-5'', ''openai''), (''qwen2.5-7b-instruct'', ''local''),
      (''llama-3.2-3b'', ''local''), (''llama-3.2-1b'', ''local'')]"
  unfolding getAllReasoningModels_def REASONING_PROVIDERS_def buildReasoningProviders_def
    example_getAllModels
  by (simp add: getCloudProviders_def Object_assign_key_def Object_entries_def
      not_array_index_openai not_array_index_local rm_value_extend rmp_provider_extend
      md_id_withProviderId example_catalog_def example_openai_def example_model_def)

lemma example_reasoning_ids:
  "rm_value ` set (getAllReasoningModels example_catalog)
     = {''gpt-5'', ''qwen2.5-7b-instruct'', ''llama-3.2-3b'', ''llama-3.2-1b''}"
proof -
  have "rm_value ` set (getAllReasoningModels example_catalog)
          = fst ` set (map (\<lambda>x. (rm_value x, rmp_provider x))
                         (getAllReasoningModels example_catalog))"
    by (simp add: image_image)
  then show ?thesis
    unfolding example_reasoning_models by simp
qed

subsection \<open>Models of the registry\<close>

text \<open>
  Claim C1, as stated, fails: in the example catalog the model \<open>qwen2.5-7b-instruct\<close>
  belongs to the provider \<open>qwen\<close>, which is the \<open>providerId\<close> that \<open>getAllModels\<close>
  attaches to it, and \<open>getModelProvider\<close> returns \<open>local\<close> for it.
\<close>

theorem getModelProvider_owning_provider_counterexample:
  "map md_id (getAllModels (modelRegistry example_catalog))
     = [''qwen2.5-7b-instruct'', ''llama-3.2-3b'', ''llama-3.2-1b'']
   \<and> map mwp_providerId (getAllModels (modelRegistry example_catalog))
     = [''qwen'', ''llama'', ''llama'']
   \<and> getModelProvider example_catalog ''qwen2.5-7b-instruct'' = ''local''
   \<and> getModelProvider example_catalog ''qwen2.5-7b-instruct'' \<noteq> ''qwen''"
  by (simp add: example_getAllModels md_id_withProviderId mwp_providerId_withProviderId
      example_model_def getModelProvider_lookup example_reasoning_models)

text \<open>
  Claim C1, amended. For every model that \<open>getAllModels\<close> returns on the registry built
  from the catalog, \<open>getModelProvider\<close> of its id is decided by the flattened view and
  not by the heuristic rules: the result is \<open>local\<close>, the one bucket into which the
  view merges the models of all registry providers, or else the id of a cloud provider
  of the catalog that lists the same model id. In particular it is \<open>local\<close> whenever
  no cloud provider lists the model's id.
\<close>

theorem getModelProvider_registry_model:
  assumes "m \<in> set (getAllModels (modelRegistry modelData))"
  shows "(getModelProvider modelData (md_id m) = ''local''
          \<or> (\<exists>cp \<in> set (cloudProviders modelData).
                getModelProvider modelData (md_id m) = cpd_id cp
                \<and> md_id m \<in> cmd_id ` set (cpd_models cp)))
         \<and> ((\<forall>cp \<in> set (cloudProviders modelData). md_id m \<notin> cmd_id ` set (cpd_models cp))
              \<longrightarrow> getModelProvider modelData (md_id m) = ''local'')"
proof -
  let ?bucket = "\<lparr> rp_name = ''Local AI'',
       rp_models = map (\<lambda>model. \<lparr> rm_value = md_id model, rm_label = md_name model,
                                   rm_description =
                                     md_description model @ '' ('' @ md_size model @ '')'' \<rparr>)
                     (getAllModels (modelRegistry modelData)) \<rparr>"
  let ?hit = "ReasoningModel.extend
                \<lparr> rm_value = md_id m, rm_label = md_name m,
                  rm_description = md_description m @ '' ('' @ md_size m @ '')'' \<rparr>
                (ReasoningModelWithProvider.fields ''local''
                   (rp_name ?bucket @ '' '' @ md_name m))"
  have "?hit \<in> set (getAllReasoningModels modelData)"
    unfolding getAllReasoningModels_mem
    using REASONING_PROVIDERS_local [of modelData] assms
    by (intro bexI [of _ "(''local'', ?bucket)"]) auto
  moreover have "rm_value ?hit = md_id m" by (simp add: ReasoningModel.extend_def)
  ultimately have "find (\<lambda>x. rm_value x = md_id m) (getAllReasoningModels modelData) \<noteq> None"
    by (auto simp: find_None_iff)
  then obtain x
    where x: "find (\<lambda>x. rm_value x = md_id m) (getAllReasoningModels modelData) = Some x"
    by auto
  then have res: "getModelProvider modelData (md_id m) = rmp_provider x"
    by (rule getModelProvider_hit)
  from find_SomeD [OF x] have "x \<in> set (getAllReasoningModels modelData)" "rm_value x = md_id m"
    by auto
  then obtain k rp model where e: "(k, rp) \<in> set (REASONING_PROVIDERS modelData)"
    and model: "model \<in> set (rp_models rp)" "rm_value model = md_id m"
    and k: "rmp_provider x = k"
    by (auto simp: getAllReasoningModels_mem rm_value_extend rmp_provider_extend)
  from REASONING_PROVIDERS_mem [OF e] model k res
  have "getModelProvider modelData (md_id m) = ''local''
          \<or> (\<exists>cp \<in> set (cloudProviders modelData).
                getModelProvider modelData (md_id m) = cpd_id cp
                \<and> md_id m \<in> cmd_id ` set (cpd_models cp))"
    by (metis imageI)
  then show ?thesis by blast
qed

text \<open>The model of the provider \<open>qwen\<close> in the example catalog.\<close>

theorem getModelProvider_registry_model_witness:
  "withProviderId (example_model ''qwen2.5-7b-instruct'') ''qwen''
     \<in> set (getAllModels (modelRegistry example_catalog))
   \<and> getModelProvider example_catalog ''qwen2.5-7b-instruct'' = ''local''"
proof -
  have h: "withProviderId (example_model ''qwen2.5-7b-instruct'') ''qwen''
             \<in> set (getAllModels (modelRegistry example_catalog))"
    by (simp add: example_getAllModels)
  have i: "md_id (withProviderId (example_model ''qwen2.5-7b-instruct'') ''qwen'')
             = ''qwen2.5-7b-instruct''"
    by (simp add: md_id_withProviderId example_model_def)
  have c: "\<forall>cp \<in> set (cloudProviders example_catalog).
             ''qwen2.5-7b-instruct'' \<notin> cmd_id ` set (cpd_models cp)"
    by (simp add: example_catalog_def example_openai_def)
  show ?thesis
    using h c getModelProvider_registry_model [OF h]
    unfolding i by blast
qed

subsection \<open>Identifiers outside the flattened view\<close>

text \<open>
  Claim C2. For every model identifier that is not in the flattened reasoning-provider
  view, \<open>getModelProvider\<close> returns what the ordered heuristic table of the
  specification gives, the empty string when no rule matches. In particular, outside
  the view, \<open>claude-3-opus\<close> resolves to \<open>anthropic\<close>, \<open>llama-3.3-70b-versatile\<close> to
  \<open>groq\<close>, \<open>llama-local-gguf\<close> to \<open>local\<close> and \<open>totally-unknown-model-xyz\<close> to the empty
  string.
\<close>

theorem getModelProvider_heuristics:
  assumes "modelId \<notin> rm_value ` set (getAllReasoningModels modelData)"
  shows "getModelProvider modelData modelId = spec_table_lookup spec_heuristic_table modelId
         \<and> (modelId = ''claude-3-opus''
              \<longrightarrow> getModelProvider modelData modelId = ''anthropic'')
         \<and> (modelId = ''llama-3.3-70b-versatile''
              \<longrightarrow> getModelProvider modelData modelId = ''groq'')
         \<and> (modelId = ''llama-local-gguf''
              \<longrightarrow> getModelProvider modelData modelId = ''local'')
         \<and> (modelId = ''totally-unknown-model-xyz''
              \<longrightarrow> getModelProvider modelData modelId = '''')"
proof -
  from assms have "find (\<lambda>m. rm_value m = modelId) (getAllReasoningModels modelData) = None"
    by (auto simp: find_None_iff)
  then have eq:
    "getModelProvider modelData modelId = spec_table_lookup spec_heuristic_table modelId"
    by (rule getModelProvider_miss)
  show ?thesis
    unfolding eq by (simp add: spec_heuristic_table_def)
qed

text \<open>
  The four identifiers of the claim on the example catalog, and one that contains both
  \<open>gemini\<close> and \<open>gemma\<close>.
\<close>

theorem getModelProvider_heuristics_witness:
  "''claude-3-opus'' \<notin> rm_value ` set (getAllReasoningModels example_catalog)
   \<and> getModelProvider example_catalog ''claude-3-opus'' = ''anthropic''
   \<and> getModelProvider example_catalog ''llama-3.3-70b-versatile'' = ''groq''
   \<and> getModelProvider example_catalog ''llama-local-gguf'' = ''local''
   \<and> getModelProvider example_catalog ''totally-unknown-model-xyz'' = ''''
   \<and> getModelProvider example_catalog ''gemini-gemma-mix'' = ''''"
proof -
  have a: "''claude-3-opus'' \<notin> rm_value ` set (getAllReasoningModels example_catalog)"
    unfolding example_reasoning_ids by simp
  have b: "''llama-3.3-70b-versatile''
             \<notin> rm_value ` set (getAllReasoningModels example_catalog)"
    unfolding example_reasoning_ids by simp
  have c: "''llama-local-gguf'' \<notin> rm_value ` set (getAllReasoningModels example_catalog)"
    unfolding example_reasoning_ids by simp
  have d: "''totally-unknown-model-xyz''
             \<notin> rm_value ` set (getAllReasoningModels example_catalog)"
    unfolding example_reasoning_ids by simp
  have e: "''gemini-gemma-mix'' \<notin> rm_value ` set (getAllReasoningModels example_catalog)"
    unfolding example_reasoning_ids by simp
  have t: "spec_table_lookup spec_heuristic_table ''gemini-gemma-mix'' = ''''"
    by (simp add: spec_heuristic_table_def)
  have "getModelProvider example_catalog ''gemini-gemma-mix'' = []"
    using getModelProvider_heuristics [OF e] t by simp
  moreover have "getModelProvider example_catalog ''claude-3-opus'' = ''anthropic''"
    using getModelProvider_heuristics [OF a, THEN conjunct2] by simp
  moreover have "getModelProvider example_catalog ''llama-3.3-70b-versatile'' = ''groq''"
    using getModelProvider_heuristics [OF b, THEN conjunct2] by simp
  moreover have "getModelProvider example_catalog ''llama-local-gguf'' = ''local''"
    using getModelProvider_heuristics [OF c, THEN conjunct2] by simp
  moreover have "getModelProvider example_catalog ''totally-unknown-model-xyz'' = []"
    using getModelProvider_heuristics [OF d, THEN conjunct2] by simp
  ultimately show ?thesis
    using a by simp
qed

section \<open>Settings\<close>

text \<open>
  Claim C4. The deserializer of each boolean cell is a comparison, defined on every
  stored string: \<open>useLocalWhisper\<close>, \<open>allowOpenAIFallback\<close> and \<open>allowLocalFallback\<close> read
  a stored string as true exactly when it is \<open>true\<close>; \<open>useReasoningModel\<close> and
  \<open>preferBuiltInMic\<close> read it as true exactly when it is not \<open>false\<close>. Under both
  conventions deserializing the serialized form of a boolean gives the boolean back.
\<close>

theorem boolean_cells_deserialize:
  "deserialize useLocalWhisper_cell s = (s = ''true'')
   \<and> deserialize allowOpenAIFallback_cell s = (s = ''true'')
   \<and> deserialize allowLocalFallback_cell s = (s = ''true'')
   \<and> deserialize useReasoningModel_cell s = (s \<noteq> ''false'')
   \<and> deserialize preferBuiltInMic_cell s = (s \<noteq> ''false'')
   \<and> deserialize useLocalWhisper_cell (serialize useLocalWhisper_cell v) = v
   \<and> deserialize allowOpenAIFallback_cell (serialize allowOpenAIFallback_cell v) = v
   \<and> deserialize allowLocalFallback_cell (serialize allowLocalFallback_cell v) = v
   \<and> deserialize useReasoningModel_cell (serialize useReasoningModel_cell v) = v
   \<and> deserialize preferBuiltInMic_cell (serialize preferBuiltInMic_cell v) = v"
  by (simp add: useLocalWhisper_cell_def allowOpenAIFallback_cell_def
      allowLocalFallback_cell_def useReasoningModel_cell_def preferBuiltInMic_cell_def
      String_of_bool_def)

text \<open>
  Claim C10. The deserializer of the \<open>activationMode\<close> cell is defined on every stored
  string and returns \<open>tap\<close> or \<open>push\<close>: \<open>push\<close> for the stored string \<open>push\<close>, and
  \<open>tap\<close> for every other string, the empty string among them.
\<close>

theorem activationMode_deserialize:
  "deserialize activationMode_cell s \<in> {''tap'', ''push''}
   \<and> (s = ''push'' \<longrightarrow> deserialize activationMode_cell s = ''push'')
   \<and> (s \<noteq> ''push'' \<longrightarrow> deserialize activationMode_cell s = ''tap'')"
  by (simp add: activationMode_cell_def)

text \<open>The stored strings \<open>push\<close>, the empty string and \<open>hold-to-talk\<close>.\<close>

theorem activationMode_deserialize_witness:
  "deserialize activationMode_cell ''push'' = ''push''
   \<and> deserialize activationMode_cell '''' = ''tap''
   \<and> deserialize activationMode_cell ''hold-to-talk'' = ''tap''"
  using activationMode_deserialize [of "''push''"] activationMode_deserialize [of "''''"]
    activationMode_deserialize [of "''hold-to-talk''"]
  by simp

subsection \<open>The reasoning provider\<close>

lemmas cell_defs =
  useLocalWhisper_cell_def whisperModel_cell_def allowOpenAIFallback_cell_def
  allowLocalFallback_cell_def fallbackWhisperModel_cell_def preferredLanguage_cell_def
  cloudTranscriptionProvider_cell_def cloudTranscriptionModel_cell_def
  cloudTranscriptionBaseUrl_cell_def cloudReasoningBaseUrl_cell_def useReasoningModel_cell_def
  reasoningModel_cell_def openaiApiKey_cell_def anthropicApiKey_cell_def geminiApiKey_cell_def
  groqApiKey_cell_def dictationKey_cell_def activationMode_cell_def preferBuiltInMic_cell_def
  selectedMicDeviceId_cell_def

lemma cell_value_other_key:
  "key cell \<noteq> k \<Longrightarrow>
     cell_value cell (st\<lparr> localStorage := (localStorage st)(k := x) \<rparr>) = cell_value cell st"
  by (simp add: cell_value_def)

lemma localStorage_if_defined_cell_set:
  "localStorage (if_defined field (cell_set cell) st) =
     (case field of None \<Rightarrow> localStorage st
      | Some v \<Rightarrow> (localStorage st)(key cell \<mapsto> serialize cell v))"
  by (simp add: if_defined_def cell_set_def split: option.split)

lemma localStorage_updateReasoningSettings:
  "localStorage (updateReasoningSettings endpoints settings st) k =
     (if k = ''cloudReasoningBaseUrl'' \<and> rs_cloudReasoningBaseUrl settings \<noteq> None
        then rs_cloudReasoningBaseUrl settings
      else if k = ''reasoningModel'' \<and> rs_reasoningModel settings \<noteq> None
        then rs_reasoningModel settings
      else if k = ''useReasoningModel'' \<and> rs_useReasoningModel settings \<noteq> None
        then map_option String_of_bool (rs_useReasoningModel settings)
      else localStorage st k)"
  by (simp add: updateReasoningSettings_def localStorage_if_defined_cell_set
      useReasoningModel_cell_def reasoningModel_cell_def cloudReasoningBaseUrl_cell_def
      String_of_string_def split: option.split)

text \<open>
  Claim C5. The reasoning provider is not a stored cell. The \<open>reasoningProvider\<close> that
  \<open>useSettings\<close> exposes is \<open>getModelProvider\<close> of the value of the \<open>reasoningModel\<close>
  cell, in every state, and nothing stored under a key \<open>reasoningProvider\<close> changes what
  \<open>useSettings\<close> exposes. \<open>updateReasoningSettings\<close> ignores a \<open>reasoningProvider\<close>
  field of its argument, and it leaves every stored entry as it was except those under
  the keys \<open>useReasoningModel\<close>, \<open>reasoningModel\<close> and \<open>cloudReasoningBaseUrl\<close>.
\<close>

theorem reasoningProvider_derived:
  "reasoningProvider (useSettings endpoints modelData st)
     = getModelProvider modelData (reasoningModel (useSettings endpoints modelData st))
   \<and> useSettings endpoints modelData
        (st\<lparr> localStorage := (localStorage st)(''reasoningProvider'' := x) \<rparr>)
     = useSettings endpoints modelData st
   \<and> updateReasoningSettings endpoints (settings\<lparr> rs_reasoningProvider := p \<rparr>) st
     = updateReasoningSettings endpoints settings st
   \<and> (k \<notin> {''useReasoningModel'', ''reasoningModel'', ''cloudReasoningBaseUrl''}
        \<longrightarrow> localStorage (updateReasoningSettings endpoints settings st) k = localStorage st k)
   \<and> electronAPI (updateReasoningSettings endpoints settings st) = electronAPI st
   \<and> calls (updateReasoningSettings endpoints settings st) = calls st"
proof -
  have derived: "reasoningProvider (useSettings endpoints modelData st)
     = getModelProvider modelData (reasoningModel (useSettings endpoints modelData st))"
    by (simp add: useSettings_def)
  have out_of_band: "useSettings endpoints modelData
        (st\<lparr> localStorage := (localStorage st)(''reasoningProvider'' := x) \<rparr>)
     = useSettings endpoints modelData st"
    unfolding useSettings_def
    by (simp add: cell_value_other_key cell_defs)
  have ignored: "updateReasoningSettings endpoints (settings\<lparr> rs_reasoningProvider := p \<rparr>) st
     = updateReasoningSettings endpoints settings st"
    by (simp add: updateReasoningSettings_def)
  have frame: "k \<notin> {''useReasoningModel'', ''reasoningModel'', ''cloudReasoningBaseUrl''}
        \<longrightarrow> localStorage (updateReasoningSettings endpoints settings st) k = localStorage st k"
    by (simp add: localStorage_updateReasoningSettings)
  have rest: "electronAPI (updateReasoningSettings endpoints settings st) = electronAPI st
     \<and> calls (updateReasoningSettings endpoints settings st) = calls st"
    by (simp add: updateReasoningSettings_def if_defined_def cell_set_def split: option.split)
  from derived out_of_band ignored frame rest show ?thesis by blast
qed

text \<open>
  On the example state, where the stored reasoning model is \<open>gpt-5\<close>: an update that
  names the model \<open>llama-3.2-3b\<close> and the provider \<open>openai\<close> stores nothing under
  \<open>reasoningProvider\<close>, and the exposed provider is \<open>local\<close>, that of the new model.
\<close>

theorem reasoningProvider_derived_witness:
  "localStorage
     (updateReasoningSettings example_endpoints
        \<lparr> rs_useReasoningModel = None, rs_reasoningModel = Some ''llama-3.2-3b'',
          rs_reasoningProvider = Some ''openai'', rs_cloudReasoningBaseUrl = None \<rparr>
        example_state) ''reasoningProvider''
     = None
   \<and> reasoningProvider (useSettings example_endpoints example_catalog example_state) = ''openai''
   \<and> reasoningProvider
        (useSettings example_endpoints example_catalog
           (updateReasoningSettings example_endpoints
              \<lparr> rs_useReasoningModel = None, rs_reasoningModel = Some ''llama-3.2-3b'',
                rs_reasoningProvider = Some ''openai'', rs_cloudReasoningBaseUrl = None \<rparr>
              example_state))
     = ''local''"
proof -
  let ?update = "\<lparr> rs_useReasoningModel = None, rs_reasoningModel = Some ''llama-3.2-3b'',
                   rs_reasoningProvider = Some ''openai'', rs_cloudReasoningBaseUrl = None \<rparr>"
  let ?st = "updateReasoningSettings example_endpoints ?update example_state"
  note inst = reasoningProvider_derived [where endpoints = example_endpoints
      and modelData = example_catalog and k = "''reasoningProvider''" and settings = "?update"]
  have k: "''reasoningProvider''
             \<notin> {''useReasoningModel'', ''reasoningModel'', ''cloudReasoningBaseUrl''}"
    by simp
  have stored: "localStorage ?st ''reasoningProvider'' = None"
    using inst [where st = example_state] k by (simp add: example_state_def)
  have before: "reasoningModel (useSettings example_endpoints example_catalog example_state)
                  = ''gpt-5''"
    by (simp add: useSettings_def cell_value_def reasoningModel_cell_def String_of_string_def
        example_state_def)
  have after: "reasoningModel (useSettings example_endpoints example_catalog ?st)
                 = ''llama-3.2-3b''"
    by (simp add: useSettings_def cell_value_def localStorage_updateReasoningSettings
        reasoningModel_cell_def String_of_string_def)
  have r1: "reasoningProvider (useSettings example_endpoints example_catalog example_state)
              = ''openai''"
    using inst [where st = example_state, THEN conjunct1]
    by (simp add: before getModelProvider_lookup example_reasoning_models)
  have r2: "reasoningProvider (useSettings example_endpoints example_catalog ?st) = ''local''"
    using inst [where st = "?st", THEN conjunct1]
    by (simp add: after getModelProvider_lookup example_reasoning_models)
  from stored r1 r2 show ?thesis by simp
qed

subsection \<open>API keys\<close>

lemma localStorage_api_key_setters:
  "localStorage (setOpenaiApiKey v st) = (localStorage st)(''openaiApiKey'' \<mapsto> v)"
  "localStorage (setAnthropicApiKey v st) = (localStorage st)(''anthropicApiKey'' \<mapsto> v)"
  "localStorage (setGeminiApiKey v st) = (localStorage st)(''geminiApiKey'' \<mapsto> v)"
  "localStorage (setGroqApiKey v st) = (localStorage st)(''groqApiKey'' \<mapsto> v)"
  by (simp_all add: setOpenaiApiKey_def setAnthropicApiKey_def setGeminiApiKey_def
      setGroqApiKey_def ReasoningService_clearApiKeyCache_def optional_call_def cell_set_def
      openaiApiKey_cell_def anthropicApiKey_cell_def geminiApiKey_cell_def groqApiKey_cell_def
      String_of_string_def)

lemma electronAPI_api_key_setters:
  "electronAPI (setOpenaiApiKey v st) = electronAPI st"
  "electronAPI (setAnthropicApiKey v st) = electronAPI st"
  "electronAPI (setGeminiApiKey v st) = electronAPI st"
  "electronAPI (setGroqApiKey v st) = electronAPI st"
  by (simp_all add: setOpenaiApiKey_def setAnthropicApiKey_def setGeminiApiKey_def
      setGroqApiKey_def ReasoningService_clearApiKeyCache_def optional_call_def cell_set_def)

lemma calls_api_key_setters:
  "calls (setOpenaiApiKey v st) =
     calls st @ (if electronAPI st ''saveOpenAIKey'' then [saveOpenAIKey v] else [])
       @ [clearApiKeyCache ''openai'']"
  "calls (setAnthropicApiKey v st) =
     calls st @ (if electronAPI st ''saveAnthropicKey'' then [saveAnthropicKey v] else [])
       @ [clearApiKeyCache ''anthropic'']"
  "calls (setGeminiApiKey v st) =
     calls st @ (if electronAPI st ''saveGeminiKey'' then [saveGeminiKey v] else [])
       @ [clearApiKeyCache ''gemini'']"
  "calls (setGroqApiKey v st) =
     calls st @ (if electronAPI st ''saveGroqKey'' then [saveGroqKey v] else [])
       @ [clearApiKeyCache ''groq'']"
  by (simp_all add: setOpenaiApiKey_def setAnthropicApiKey_def setGeminiApiKey_def
      setGroqApiKey_def ReasoningService_clearApiKeyCache_def optional_call_def cell_set_def)

text \<open>
  Claim C6. \<open>updateApiKeys\<close> stores exactly the fields that are present in its argument,
  each under the key of its cell, and leaves every other stored entry as it was; the
  calls it makes are, field by field in the order openai, anthropic, gemini, groq, those
  of the single-field setter of each field that is present. With only \<open>groqApiKey\<close>
  present and equal to \<open>x\<close> it does what \<open>setGroqApiKey\<close> does with \<open>x\<close>: the entry under
  \<open>groqApiKey\<close> becomes \<open>x\<close>, and the openai, anthropic and gemini keys and every other
  entry stay as they were.
\<close>

theorem updateApiKeys_frame:
  "localStorage (updateApiKeys keys st) =
     localStorage st
       ++ (\<lambda>k. if k = ''groqApiKey'' then ak_groqApiKey keys
               else if k = ''geminiApiKey'' then ak_geminiApiKey keys
               else if k = ''anthropicApiKey'' then ak_anthropicApiKey keys
               else if k = ''openaiApiKey'' then ak_openaiApiKey keys
               else None)
   \<and> calls (updateApiKeys keys st) =
       calls st
         @ (case ak_openaiApiKey keys of None \<Rightarrow> []
            | Some v \<Rightarrow> (if electronAPI st ''saveOpenAIKey'' then [saveOpenAIKey v] else [])
                         @ [clearApiKeyCache ''openai''])
         @ (case ak_anthropicApiKey keys of None \<Rightarrow> []
            | Some v \<Rightarrow> (if electronAPI st ''saveAnthropicKey'' then [saveAnthropicKey v] else [])
                         @ [clearApiKeyCache ''anthropic''])
         @ (case ak_geminiApiKey keys of None \<Rightarrow> []
            | Some v \<Rightarrow> (if electronAPI st ''saveGeminiKey'' then [saveGeminiKey v] else [])
                         @ [clearApiKeyCache ''gemini''])
         @ (case ak_groqApiKey keys of None \<Rightarrow> []
            | Some v \<Rightarrow> (if electronAPI st ''saveGroqKey'' then [saveGroqKey v] else [])
                         @ [clearApiKeyCache ''groq''])
   \<and> updateApiKeys \<lparr> ak_openaiApiKey = None, ak_anthropicApiKey = None,
                      ak_geminiApiKey = None, ak_groqApiKey = Some x \<rparr> st
       = setGroqApiKey x st
   \<and> localStorage (updateApiKeys \<lparr> ak_openaiApiKey = None, ak_anthropicApiKey = None,
                                    ak_geminiApiKey = None, ak_groqApiKey = Some x \<rparr> st)
       = (localStorage st)(''groqApiKey'' \<mapsto> x)
   \<and> useSettings endpoints modelData
        (updateApiKeys \<lparr> ak_openaiApiKey = None, ak_anthropicApiKey = None,
                         ak_geminiApiKey = None, ak_groqApiKey = Some x \<rparr> st)
       = (useSettings endpoints modelData st)\<lparr> groqApiKey := x \<rparr>"
proof -
  have store: "localStorage (updateApiKeys keys st) =
     localStorage st
       ++ (\<lambda>k. if k = ''groqApiKey'' then ak_groqApiKey keys
               else if k = ''geminiApiKey'' then ak_geminiApiKey keys
               else if k = ''anthropicApiKey'' then ak_anthropicApiKey keys
               else if k = ''openaiApiKey'' then ak_openaiApiKey keys
               else None)"
    by (rule ext)
      (simp add: updateApiKeys_def if_defined_def localStorage_api_key_setters map_add_def
        split: option.split)
  have effects: "calls (updateApiKeys keys st) =
       calls st
         @ (case ak_openaiApiKey keys of None \<Rightarrow> []
            | Some v \<Rightarrow> (if electronAPI st ''saveOpenAIKey'' then [saveOpenAIKey v] else [])
                         @ [clearApiKeyCache ''openai''])
         @ (case ak_anthropicApiKey keys of None \<Rightarrow> []
            | Some v \<Rightarrow> (if electronAPI st ''saveAnthropicKey'' then [saveAnthropicKey v] else [])
                         @ [clearApiKeyCache ''anthropic''])
         @ (case ak_geminiApiKey keys of None \<Rightarrow> []
            | Some v \<Rightarrow> (if electronAPI st ''saveGeminiKey'' then [saveGeminiKey v] else [])
                         @ [clearApiKeyCache ''gemini''])
         @ (case ak_groqApiKey keys of None \<Rightarrow> []
            | Some v \<Rightarrow> (if electronAPI st ''saveGroqKey'' then [saveGroqKey v] else [])
                         @ [clearApiKeyCache ''groq''])"
    by (simp add: updateApiKeys_def if_defined_def calls_api_key_setters
        electronAPI_api_key_setters split: option.split)
  have only_groq: "updateApiKeys \<lparr> ak_openaiApiKey = None, ak_anthropicApiKey = None,
                      ak_geminiApiKey = None, ak_groqApiKey = Some x \<rparr> st
       = setGroqApiKey x st"
    by (simp add: updateApiKeys_def if_defined_def)
  have cell: "localStorage (setGroqApiKey x st) = (localStorage st)(''groqApiKey'' \<mapsto> x)"
    by (simp only: localStorage_api_key_setters)
  have exposed: "useSettings endpoints modelData (setGroqApiKey x st)
       = (useSettings endpoints modelData st)\<lparr> groqApiKey := x \<rparr>"
    unfolding useSettings_def
    by (simp add: cell_value_def cell cell_defs String_of_string_def)
  from store effects only_groq cell exposed show ?thesis by simp
qed

section \<open>Further properties\<close>

subsection \<open>The formatter on prompts without dollar signs\<close>

lemma String_replace_no_dollar:
  "CHR ''$'' \<notin> set r \<Longrightarrow> String_replace s pat r = spec_replace_first s pat r"
  by (induction s) (auto simp: String_replace_def GetSubstitution_no_dollar split: option.splits)

text \<open>
  When neither the system prompt nor the text contains a dollar sign, the formatter is
  the substitution the specification describes: the first \<open>{system}\<close> gives way to the
  system prompt, then the first \<open>{user}\<close> to the text, and later occurrences of either
  marker stay.
\<close>

theorem formatPrompt_literal_substitution:
  assumes "CHR ''$'' \<notin> set systemPrompt" and "CHR ''$'' \<notin> set text"
  shows "createPromptFormatter template text systemPrompt
           = spec_replace_first (spec_replace_first template ''{system}'' systemPrompt)
               ''{user}'' text"
  using assms by (simp add: createPromptFormatter_def String_replace_no_dollar)

text \<open>A template with each marker twice, the \<open>{user}\<close> marker first.\<close>

theorem formatPrompt_literal_substitution_witness:
  "createPromptFormatter ''{user}{system}{user}{system}'' ''u'' ''s'' = ''us{user}{system}''"
  using formatPrompt_literal_substitution [of "''s''" "''u''" "''{user}{system}{user}{system}''"]
  by simp

subsection \<open>The registry in general\<close>

text \<open>
  In every state of the registry \<open>getAllModels\<close> is the providers' model lists, in the
  order of \<open>getAllProviders\<close>, each model with its provider's id; its length is the sum
  of the model counts.
\<close>

theorem getAllModels_flattens_providers:
  "getAllModels providers =
     concat (map (\<lambda>p. map (\<lambda>m. withProviderId m (mp_id p)) (mp_models p))
               (getAllProviders providers))
   \<and> length (getAllModels providers)
       = sum_list (map (\<lambda>p. length (mp_models p)) (getAllProviders providers))"
  by (simp add: getAllModels_concat getAllProviders_def length_concat comp_def)

lemma Map_get_Map_set: "Map_get (Map_set k v m) k' = (if k' = k then Some v else Map_get m k')"
  by (induction m) (auto simp: Map_get_def)

lemma length_Map_set:
  "length (Map_set k v m) = (if k \<in> fst ` set m then length m else Suc (length m))"
  by (induction m) (fastforce simp: image_iff)+

text \<open>
  \<open>registerProvider\<close> inserts or overwrites by provider id: afterwards the id maps to the
  provider just registered, every other id maps to what it mapped to, and the number of
  providers grows only when the id was new.
\<close>

theorem registerProvider_last_write_wins:
  "getProvider (registerProvider p providers) providerId
     = (if providerId = mp_id p then Some p else getProvider providers providerId)
   \<and> length (getAllProviders (registerProvider p providers))
       = (if mp_id p \<in> fst ` set providers then length (getAllProviders providers)
          else Suc (length (getAllProviders providers)))"
  by (simp add: getProvider_def registerProvider_def getAllProviders_def Map_values_def
      Map_get_Map_set length_Map_set)

subsection \<open>Labels\<close>

lemma fullLabel_nonempty:
  "x \<in> set (getAllReasoningModels modelData) \<Longrightarrow> rmp_fullLabel x \<noteq> []"
  by (auto simp: getAllReasoningModels_mem ReasoningModel.extend_def
      ReasoningModelWithProvider.fields_def)

text \<open>
  \<open>getReasoningModelLabel\<close> returns the identifier itself when the flattened view does
  not list it, and the full label of the first hit otherwise.
\<close>

theorem getReasoningModelLabel_hit_or_raw:
  "(modelId \<notin> rm_value ` set (getAllReasoningModels modelData)
      \<longrightarrow> getReasoningModelLabel modelData modelId = modelId)
   \<and> (find (\<lambda>m. rm_value m = modelId) (getAllReasoningModels modelData) = Some x
      \<longrightarrow> getReasoningModelLabel modelData modelId = rmp_fullLabel x)"
proof -
  have miss: "modelId \<notin> rm_value ` set (getAllReasoningModels modelData)
      \<longrightarrow> getReasoningModelLabel modelData modelId = modelId"
  proof
    assume "modelId \<notin> rm_value ` set (getAllReasoningModels modelData)"
    then have "find (\<lambda>m. rm_value m = modelId) (getAllReasoningModels modelData) = None"
      by (auto simp: find_None_iff)
    then show "getReasoningModelLabel modelData modelId = modelId"
      by (simp add: getReasoningModelLabel_def)
  qed
  have hit: "find (\<lambda>m. rm_value m = modelId) (getAllReasoningModels modelData) = Some x
      \<longrightarrow> getReasoningModelLabel modelData modelId = rmp_fullLabel x"
    using fullLabel_nonempty [of x modelData] find_SomeD [of "\<lambda>m. rm_value m = modelId" _ x]
    by (auto simp: getReasoningModelLabel_def)
  from miss hit show ?thesis by blast
qed

text \<open>An unknown identifier on the example catalog.\<close>

theorem getReasoningModelLabel_hit_or_raw_witness:
  "getReasoningModelLabel example_catalog ''my-model'' = ''my-model''"
proof -
  have "''my-model'' \<notin> rm_value ` set (getAllReasoningModels example_catalog)"
    unfolding example_reasoning_ids by simp
  with getReasoningModelLabel_hit_or_raw [of "''my-model''" example_catalog]
  show ?thesis by blast
qed

end
